theory Spec2Isabelle
  imports Main
begin

chapter \<open>Nachos: priority scheduler, open files and the file-system facade\<close>

section \<open>Scheduler (threads/scheduler.cc)\<close>

subsection \<open>Threads and the ready lists\<close>

datatype ThreadStatus = JUST_CREATED | RUNNING | READY | BLOCKED

text \<open>A thread as the scheduler sees it: its name, its priority (\<open>GetPriority\<close>) and its
  status (\<open>SetStatus\<close>).\<close>

record Thread =
  thread_name :: string
  priority :: int
  status :: ThreadStatus

text \<open>Modelled from the spec: \<open>List<Item>\<close> of \<open>lib/list.hh\<close> is not among the sources.
  A list element carries the item and its sort key. \<open>SortedInsert\<close> is the sorted insert by
  key of section 3 of the specification ("FIFO order via sorted-insert by priority
  (stable-insert preserves arrival order for equal priorities)"): the new element goes in
  front of the first element whose key is strictly greater, so keys ascend from the head
  and equal keys keep their arrival order. \<open>Pop\<close> removes and returns the head;
  \<open>IsEmpty\<close> tests for the empty list.\<close>

type_synonym 'a List = "('a \<times> int) list"

fun SortedInsert :: "'a \<Rightarrow> int \<Rightarrow> 'a List \<Rightarrow> 'a List" where
  "SortedInsert item sortKey [] = [(item, sortKey)]"
| "SortedInsert item sortKey ((x, k) # rest) =
     (if sortKey < k then (item, sortKey) # (x, k) # rest
      else (x, k) # SortedInsert item sortKey rest)"

definition IsEmpty :: "'a List \<Rightarrow> bool" where
  "IsEmpty l = (l = [])"

fun Pop :: "'a List \<Rightarrow> ('a \<times> 'a List) option" where
  "Pop [] = None"
| "Pop ((x, k) # rest) = Some (x, rest)"

text \<open>The scheduler owns the array \<open>readyList[3]\<close>; an index outside \<open>0..2\<close> is never
  used by the code.\<close>

record Scheduler =
  readyList :: "nat \<Rightarrow> Thread List"

definition Scheduler_init :: Scheduler where
  "Scheduler_init = \<lparr> readyList = (\<lambda>i. []) \<rparr>"

subsection \<open>ReadyToRun and FindNextToRun\<close>

text \<open>\<open>Scheduler::ReadyToRun\<close>: the thread's status becomes \<open>READY\<close> and the thread is
  sorted into the list chosen by the comparison chain on its priority.\<close>

definition ReadyToRun :: "Thread \<Rightarrow> Scheduler \<Rightarrow> Scheduler" where
  "ReadyToRun thread s =
     (let priority = priority thread;
          thread = thread\<lparr>status := READY\<rparr>
      in if priority < 20 then
           s\<lparr>readyList := (readyList s)(0 := SortedInsert thread priority (readyList s 0))\<rparr>
         else if priority = 20 then
           s\<lparr>readyList := (readyList s)(1 := SortedInsert thread priority (readyList s 1))\<rparr>
         else
           s\<lparr>readyList := (readyList s)(2 := SortedInsert thread priority (readyList s 2))\<rparr>)"

text \<open>\<open>Scheduler::FindNextToRun\<close>: the loop \<open>for (i = 2; i >= 0; i--)\<close>. The counter of
  the recursion is \<open>i + 1\<close>, so that \<open>0\<close> is the exit of the loop, which returns
  \<open>NULL\<close>.\<close>

fun FindNextToRun_from :: "nat \<Rightarrow> Scheduler \<Rightarrow> Thread option \<times> Scheduler" where
  "FindNextToRun_from 0 s = (None, s)"
| "FindNextToRun_from (Suc i) s =
     (if \<not> IsEmpty (readyList s i) then
        (case Pop (readyList s i) of
           Some (t, rest) \<Rightarrow> (Some t, s\<lparr>readyList := (readyList s)(i := rest)\<rparr>)
         | None \<Rightarrow> (None, s))
      else FindNextToRun_from i s)"

definition FindNextToRun :: "Scheduler \<Rightarrow> Thread option \<times> Scheduler" where
  "FindNextToRun s = FindNextToRun_from 3 s"

text \<open>Making a list of threads ready, one after the other, and popping \<open>n\<close> times.\<close>

fun ReadyAll :: "Thread list \<Rightarrow> Scheduler \<Rightarrow> Scheduler" where
  "ReadyAll [] s = s"
| "ReadyAll (t # ts) s = ReadyAll ts (ReadyToRun t s)"

fun PopN :: "nat \<Rightarrow> Scheduler \<Rightarrow> Thread option list" where
  "PopN 0 s = []"
| "PopN (Suc n) s = (case FindNextToRun s of (r, s') \<Rightarrow> r # PopN n s')"

text \<open>The index of the ready list that the comparison chain of \<open>ReadyToRun\<close> selects
  for a priority.\<close>

definition tier :: "int \<Rightarrow> nat" where
  "tier p = (if p < 20 then 0 else if p = 20 then 1 else 2)"

section \<open>Common types\<close>

text \<open>Outcomes of the source that are not a normal return: a failed \<open>ASSERT\<close>, a use of a
  null pointer, a read or write outside a buffer or a string, a semaphore \<open>P\<close> on which the
  calling thread stays blocked, and a recursion that does not come back.\<close>

datatype error = AssertionFailed | NullPointer | OutOfBounds | Blocked | NoReturn

type_synonym 'a result = "error + 'a"

type_synonym byte = char

text \<open>Modelled from the spec: \<open>machine/disk.hh\<close> and \<open>filesys/raw_file_header.hh\<close> are not
  among the sources. The specification works with \<open>SECTOR_SIZE = 128\<close> and
  \<open>NUM_DIRECT = 30\<close> (section 8, scenario 2). \<open>NUM_SECTORS\<close> is the number of bits of the
  free map and \<open>NUM_DIR_ENTRIES\<close> the number of slots of a directory table; both are read
  off the stored objects.\<close>

definition SECTOR_SIZE :: nat where
  "SECTOR_SIZE = 128"

definition NUM_DIRECT :: nat where
  "NUM_DIRECT = 30"

definition FREE_MAP_SECTOR :: nat where
  "FREE_MAP_SECTOR = 0"

definition DIRECTORY_SECTOR :: nat where
  "DIRECTORY_SECTOR = 1"

definition DivRoundDown :: "nat \<Rightarrow> nat \<Rightarrow> nat" where
  "DivRoundDown n s = n div s"

definition DivRoundUp :: "nat \<Rightarrow> nat \<Rightarrow> nat" where
  "DivRoundUp n s = (n + s - 1) div s"

text \<open>The value of an \<open>unsigned\<close> expression: the mathematical value reduced modulo
  \<open>2^32\<close>.\<close>

definition u32 :: "int \<Rightarrow> nat" where
  "u32 i = nat (i mod 2 ^ 32)"

section \<open>Bitmap, file header, directory, open-file table, semaphores\<close>

subsection \<open>Bitmap\<close>

text \<open>Modelled from the spec: \<open>lib/bitmap.hh\<close> is not among the sources. Section 4.1:
  \<open>Find()\<close> returns the smallest clear bit and marks it, or \<open>-1\<close> if the map is full;
  \<open>Mark\<close>, \<open>Clear\<close> and \<open>Test\<close> act on one bit. \<open>NumClear\<close> counts the clear
  bits.\<close>

type_synonym Bitmap = "bool list"


definition Bitmap_Mark :: "Bitmap \<Rightarrow> nat \<Rightarrow> Bitmap" where
  "Bitmap_Mark m i = m[i := True]"

definition Bitmap_Clear :: "Bitmap \<Rightarrow> nat \<Rightarrow> Bitmap" where
  "Bitmap_Clear m i = m[i := False]"

definition Bitmap_NumClear :: "Bitmap \<Rightarrow> nat" where
  "Bitmap_NumClear m = length (filter Not m)"

fun first_clear :: "nat \<Rightarrow> Bitmap \<Rightarrow> nat option" where
  "first_clear i [] = None"
| "first_clear i (b # bs) = (if \<not> b then Some i else first_clear (Suc i) bs)"

definition Bitmap_Find :: "Bitmap \<Rightarrow> int \<times> Bitmap" where
  "Bitmap_Find m =
     (case first_clear 0 m of
        None \<Rightarrow> (- 1, m)
      | Some i \<Rightarrow> (int i, Bitmap_Mark m i))"

text \<open>\<open>n\<close> calls of \<open>Find()\<close> in a row, as the allocation loops of the file header make
  them.\<close>

fun Bitmap_FindN :: "nat \<Rightarrow> Bitmap \<Rightarrow> nat list \<times> Bitmap" where
  "Bitmap_FindN 0 m = ([], m)"
| "Bitmap_FindN (Suc n) m =
     (case Bitmap_Find m of
        (i, m') \<Rightarrow> (case Bitmap_FindN n m' of (is, m'') \<Rightarrow> (nat i # is, m'')))"

subsection \<open>File header\<close>

text \<open>Modelled from the spec: \<open>filesys/file_header.hh\<close> is not among the sources.
  Sections 3 and 4.2: a header holds \<open>numBytes\<close>, \<open>numSectors\<close> and the table
  \<open>dataSectors\<close>, of which the first \<open>numSectors\<close> entries are kept here.
  \<open>Allocate(freeMap, size)\<close> succeeds iff \<open>ceil(size / SECTOR_SIZE) \<le> NUM_DIRECT\<close> and
  enough free bits remain, and then takes the bits with \<open>Find\<close>; \<open>Extend\<close> grows
  \<open>numBytes\<close> by the delta and takes the sectors the new \<open>numSectors\<close> needs; both change
  nothing when they fail. \<open>Deallocate\<close> clears the bit of every data sector.
  \<open>ByteToSector(offset)\<close> is the sector that holds the offset.\<close>

record FileHeader =
  numBytes :: nat
  numSectors :: nat
  dataSectors :: "nat list"

definition FileHeader_FileLength :: "FileHeader \<Rightarrow> nat" where
  "FileHeader_FileLength h = numBytes h"

definition FileHeader_ByteToSector :: "FileHeader \<Rightarrow> nat \<Rightarrow> nat" where
  "FileHeader_ByteToSector h offset = dataSectors h ! (offset div SECTOR_SIZE)"


definition FileHeader_Extend :: "FileHeader \<Rightarrow> Bitmap \<Rightarrow> nat \<Rightarrow> (FileHeader \<times> Bitmap) option" where
  "FileHeader_Extend h freeMap additionalBytes =
     (let newBytes = numBytes h + additionalBytes;
          newSectors = DivRoundUp newBytes SECTOR_SIZE
      in if NUM_DIRECT < newSectors \<or> Bitmap_NumClear freeMap < newSectors - numSectors h then None
         else (case Bitmap_FindN (newSectors - numSectors h) freeMap of
                 (secs, freeMap') \<Rightarrow>
                   Some (h\<lparr>numBytes := newBytes, numSectors := newSectors,
                           dataSectors := dataSectors h @ secs\<rparr>, freeMap')))"

definition FileHeader_Deallocate :: "FileHeader \<Rightarrow> Bitmap \<Rightarrow> Bitmap" where
  "FileHeader_Deallocate h freeMap = fold (\<lambda>sec m. Bitmap_Clear m sec) (dataSectors h) freeMap"

subsection \<open>Directory\<close>

text \<open>Modelled from the spec: \<open>filesys/directory.hh\<close> and \<open>directory_entry.hh\<close> are not
  among the sources. Sections 3 and 4.3: a directory is a table of slots
  \<open>{inUse, isDir, name, sector}\<close>. \<open>Find(name, isDir)\<close> gives the header sector of the
  entry in use of that name and that kind (without the flag, non-directories only), or
  \<open>-1\<close>; \<open>Add\<close> succeeds iff the name is not present and a slot is free;
  \<open>Remove(name)\<close> frees the entry and gives the sector that was there, or \<open>0\<close>;
  \<open>Clean(freeMap)\<close> frees, recursively, the data blocks and the header sector of every
  entry. The recursion of \<open>Clean\<close> follows the directories stored on the disk; it is
  given a bound on its depth and does not return (\<open>None\<close>) beyond it.\<close>

record DirectoryEntry =
  inUse :: bool
  isDir :: bool
  name :: string
  sector :: nat

type_synonym Directory = "DirectoryEntry list"

definition Directory_Find :: "Directory \<Rightarrow> string \<Rightarrow> bool \<Rightarrow> int" where
  "Directory_Find d nm dirFlag =
     (case find (\<lambda>e. inUse e \<and> name e = nm \<and> isDir e = dirFlag) d of
        None \<Rightarrow> - 1
      | Some e \<Rightarrow> int (sector e))"



fun Directory_Remove :: "Directory \<Rightarrow> string \<Rightarrow> nat \<times> Directory" where
  "Directory_Remove [] nm = (0, [])"
| "Directory_Remove (x # xs) nm =
     (if inUse x \<and> name x = nm then (sector x, x\<lparr>inUse := False\<rparr> # xs)
      else (case Directory_Remove xs nm of (sec, xs') \<Rightarrow> (sec, x # xs')))"

fun Directory_Clean ::
  "nat \<Rightarrow> (nat \<Rightarrow> Directory) \<Rightarrow> (nat \<Rightarrow> FileHeader) \<Rightarrow> Directory \<Rightarrow> Bitmap \<Rightarrow> Bitmap option" where
  "Directory_Clean depth dirs hdrs [] freeMap = Some freeMap"
| "Directory_Clean depth dirs hdrs (e # es) freeMap =
     (if \<not> inUse e then Directory_Clean depth dirs hdrs es freeMap
      else (case (if isDir e
                  then (case depth of
                          0 \<Rightarrow> None
                        | Suc k \<Rightarrow> Directory_Clean k dirs hdrs (dirs (sector e)) freeMap)
                  else Some freeMap) of
              None \<Rightarrow> None
            | Some m \<Rightarrow>
                Directory_Clean depth dirs hdrs es
                  (Bitmap_Clear (FileHeader_Deallocate (hdrs (sector e)) m) (sector e))))"

subsection \<open>Open-file table and semaphores\<close>

text \<open>Modelled from the spec: the open-file table and \<open>threads/synch.hh\<close> are not among
  the sources. Sections 3 and 4.5: one node per open file, keyed by header sector, with the
  fields the code reads (\<open>name\<close>, \<open>users\<close>, \<open>remove\<close>, \<open>lectores\<close>, the semaphores
  \<open>Can_Read\<close> and \<open>Can_Write\<close>); \<open>find\<close> looks a sector up, \<open>add_file\<close> returns the
  node of the sector and creates it when absent, \<open>remove\<close> drops it. A semaphore is its
  counter: \<open>P\<close> takes one unit and leaves the caller blocked (\<open>None\<close>) when there is none,
  \<open>V\<close> gives one back. A new node has no user, no reader and both semaphores free.\<close>

record Filenode =
  node_name :: string
  node_sector :: nat
  users :: int
  remove :: bool
  lectores :: int
  Can_Read :: nat
  Can_Write :: nat

type_synonym Filetable = "nat \<Rightarrow> Filenode option"

definition filetable_find :: "Filetable \<Rightarrow> nat \<Rightarrow> Filenode option" where
  "filetable_find t sec = t sec"

definition filetable_add_file :: "Filetable \<Rightarrow> string \<Rightarrow> nat \<Rightarrow> Filenode \<times> Filetable" where
  "filetable_add_file t nm sec =
     (case t sec of
        Some node \<Rightarrow> (node, t)
      | None \<Rightarrow>
          (let node = \<lparr>node_name = nm, node_sector = sec, users = 0, remove = False,
                        lectores = 0, Can_Read = 1, Can_Write = 1\<rparr>
           in (node, t(sec := Some node))))"

definition filetable_remove :: "Filetable \<Rightarrow> nat \<Rightarrow> Filetable" where
  "filetable_remove t sec = t(sec := None)"

definition Semaphore_P :: "nat \<Rightarrow> nat option" where
  "Semaphore_P v = (if 0 < v then Some (v - 1) else None)"

definition Semaphore_V :: "nat \<Rightarrow> nat" where
  "Semaphore_V v = v + 1"

section \<open>The state of the kernel\<close>

text \<open>Modelled from the spec: the disk (\<open>synchDisk\<close>) and the serialisation of headers,
  bitmap and directories are not among the sources. Section 4.2 makes
  \<open>FetchFrom\<close>/\<open>WriteBack\<close> of a header a pure serialisation over one sector, and
  sections 4.1 and 4.3 make the bitmap and a directory round-trip through their files. The
  disk is therefore kept typed: \<open>headers\<close> is what \<open>FileHeader::FetchFrom(sector)\<close>
  reads, \<open>freeMapFile\<close> what \<open>Bitmap::FetchFrom(freeMapFile)\<close> reads,
  \<open>directories sec\<close> what \<open>Directory::FetchFrom\<close> reads from the file whose header is at
  \<open>sec\<close> (\<open>directoryFile\<close> is the one at \<open>DIRECTORY_SECTOR\<close>), and \<open>disk\<close> the
  bytes of the data sectors as \<open>ReadSector\<close> and \<open>WriteSector\<close> see them.
  \<open>currentPath\<close> is \<open>currentThread->GetPath()\<close>, and \<open>uninit\<close> the bytes
  that a buffer fresh from \<open>new char[n]\<close> holds before it is written.\<close>

record Kernel =
  disk :: "nat \<Rightarrow> nat \<Rightarrow> byte"
  headers :: "nat \<Rightarrow> FileHeader"
  freeMapFile :: Bitmap
  directories :: "nat \<Rightarrow> Directory"
  filetable :: Filetable
  currentPath :: string
  uninit :: "nat \<Rightarrow> byte"

definition ReadSector :: "(nat \<Rightarrow> nat \<Rightarrow> byte) \<Rightarrow> nat \<Rightarrow> byte list" where
  "ReadSector d sec = map (d sec) [0 ..< SECTOR_SIZE]"

definition WriteSector :: "(nat \<Rightarrow> nat \<Rightarrow> byte) \<Rightarrow> nat \<Rightarrow> byte list \<Rightarrow> (nat \<Rightarrow> nat \<Rightarrow> byte)" where
  "WriteSector d sec buf = d(sec := (\<lambda>j. if j < SECTOR_SIZE \<and> j < length buf then buf ! j else d sec j))"

section \<open>Open files (filesys/open_file.cc)\<close>

text \<open>\<open>FileSystem::Expand\<close> (file_system.cc) comes first, since \<open>WriteAt\<close> calls it: it
  loads the header and the free map, and writes both back when \<open>Extend\<close> succeeds.\<close>

definition Expand :: "nat \<Rightarrow> nat \<Rightarrow> Kernel \<Rightarrow> bool \<times> Kernel" where
  "Expand sec sz s =
     (let header = headers s sec;
          freeMap = freeMapFile s
      in case FileHeader_Extend header freeMap sz of
           Some (header', freeMap') \<Rightarrow>
             (True, s\<lparr>freeMapFile := freeMap', headers := (headers s)(sec := header')\<rparr>)
         | None \<Rightarrow> (False, s))"

text \<open>An open file is the sector of its header and its seek position. The cached header
  \<open>hdr\<close> is fetched again from the disk by every operation before it is used
  (\<open>hdr->FetchFrom(sector)\<close>), so the operations below read \<open>headers s sec\<close> at those
  points and hand the fetched header to \<open>Internal_ReadAt\<close> and \<open>Internal_WriteAt\<close>.
  The local variables \<open>numBytes\<close> and \<open>numSectors\<close> of the source are written
  \<open>nBytes\<close> and \<open>nSectors\<close>, the header fields keeping the names.\<close>

record OpenFile =
  file_sector :: nat
  seekPosition :: nat

definition OpenFile_new :: "nat \<Rightarrow> OpenFile" where
  "OpenFile_new sec = \<lparr>file_sector = sec, seekPosition = 0\<rparr>"

definition Seek :: "OpenFile \<Rightarrow> nat \<Rightarrow> OpenFile" where
  "Seek f position = f\<lparr>seekPosition := position\<rparr>"

definition Length :: "OpenFile \<Rightarrow> Kernel \<Rightarrow> nat" where
  "Length f s = FileHeader_FileLength (headers s (file_sector f))"

text \<open>\<open>memcpy(&dst[off], src, length src)\<close> on a buffer that is long enough.\<close>

definition memcpy :: "byte list \<Rightarrow> nat \<Rightarrow> byte list \<Rightarrow> byte list" where
  "memcpy dst off src = take off dst @ src @ drop (off + length src) dst"

text \<open>\<open>OpenFile::Internal_ReadAt\<close>. The result is the count and the bytes copied into
  \<open>into\<close>. A request that leaves the sectors recorded in the header, or whose end wraps
  around \<open>2^32\<close> so that the copy leaves the buffer, is undefined behaviour in the source
  and \<open>OutOfBounds\<close> here.\<close>

definition Internal_ReadAt ::
  "FileHeader \<Rightarrow> (nat \<Rightarrow> nat \<Rightarrow> byte) \<Rightarrow> nat \<Rightarrow> nat \<Rightarrow> (nat \<times> byte list) result" where
  "Internal_ReadAt h d nBytes position =
     (if nBytes = 0 then Inr (0, [])
      else
        let fileLength = FileHeader_FileLength h
        in if fileLength \<le> position then Inr (0, [])
           else
             let nBytes = (if fileLength < u32 (int position + int nBytes)
                             then u32 (int fileLength - int position) else nBytes);
                 firstSector = DivRoundDown position SECTOR_SIZE;
                 lastSector = DivRoundDown (u32 (int position + int nBytes - 1)) SECTOR_SIZE;
                 nSectors = u32 (1 + int lastSector - int firstSector)
             in if lastSector < firstSector \<or> length (dataSectors h) \<le> lastSector
                   \<or> nSectors * SECTOR_SIZE < position - firstSector * SECTOR_SIZE + nBytes
                then Inl OutOfBounds
                else
                  let buf = concat (map (\<lambda>i. ReadSector d (FileHeader_ByteToSector h (i * SECTOR_SIZE)))
                                     [firstSector ..< Suc lastSector])
                  in Inr (nBytes, take nBytes (drop (position - firstSector * SECTOR_SIZE) buf)))"

text \<open>\<open>OpenFile::Internal_WriteAt\<close>, with the header \<open>h\<close> that the caller fetched and
  the sector \<open>sec\<close> of the file for \<open>Expand\<close>. The header is not fetched again after the
  inner \<open>Expand\<close>.\<close>

definition Internal_WriteAt ::
  "FileHeader \<Rightarrow> nat \<Rightarrow> byte list \<Rightarrow> nat \<Rightarrow> nat \<Rightarrow> Kernel \<Rightarrow> (nat \<times> Kernel) result" where
  "Internal_WriteAt h sec from nBytes position s =
     (if nBytes = 0 then Inl AssertionFailed
      else
        let fileLength = FileHeader_FileLength h
        in if fileLength \<le> position then Inr (0, s)
           else
             (case (if fileLength < u32 (int position + int nBytes)
                    then (let add_size = u32 (int nBytes - (int fileLength - int position))
                          in case Expand sec add_size s of
                               (True, s') \<Rightarrow> (nBytes, s')
                             | (False, s') \<Rightarrow> (u32 (int fileLength - int position), s'))
                    else (nBytes, s)) of
                (nBytes, s1) \<Rightarrow>
                  let firstSector = DivRoundDown position SECTOR_SIZE;
                      lastSector = DivRoundDown (u32 (int position + int nBytes - 1)) SECTOR_SIZE;
                      nSectors = u32 (1 + int lastSector - int firstSector);
                      buf = map (uninit s1) [0 ..< nSectors * SECTOR_SIZE];
                      firstAligned = (position = firstSector * SECTOR_SIZE);
                      lastAligned = (u32 (int position + int nBytes)
                                       = u32 (int ((lastSector + 1) * SECTOR_SIZE)))
                  in if lastSector < firstSector \<or> length (dataSectors h) \<le> lastSector
                        \<or> length from < nBytes
                        \<or> nSectors * SECTOR_SIZE < position - firstSector * SECTOR_SIZE + nBytes
                     then Inl OutOfBounds
                     else
                       (case (if \<not> firstAligned
                              then Internal_ReadAt h (disk s1) SECTOR_SIZE (firstSector * SECTOR_SIZE)
                              else Inr (0, [])) of
                          Inl e \<Rightarrow> Inl e
                        | Inr (n1, r1) \<Rightarrow>
                            (case (if \<not> lastAligned \<and> (firstSector \<noteq> lastSector \<or> firstAligned)
                                   then Internal_ReadAt h (disk s1) SECTOR_SIZE (lastSector * SECTOR_SIZE)
                                   else Inr (0, [])) of
                               Inl e \<Rightarrow> Inl e
                             | Inr (n2, r2) \<Rightarrow>
                                 let buf = memcpy buf 0 r1;
                                     buf = memcpy buf ((lastSector - firstSector) * SECTOR_SIZE) r2;
                                     buf = memcpy buf (position - firstSector * SECTOR_SIZE)
                                             (take nBytes from);
                                     d = fold (\<lambda>i d. WriteSector d
                                                 (FileHeader_ByteToSector h (i * SECTOR_SIZE))
                                                 (take SECTOR_SIZE (drop ((i - firstSector) * SECTOR_SIZE) buf)))
                                           [firstSector ..< Suc lastSector] (disk s1)
                                 in Inr (nBytes, s1\<lparr>disk := d\<rparr>)))))"




definition WriteAt :: "OpenFile \<Rightarrow> byte list \<Rightarrow> nat \<Rightarrow> nat \<Rightarrow> Kernel \<Rightarrow> (nat \<times> Kernel) result" where
  "WriteAt f from nBytes position s =
     (let sec = file_sector f
      in case (if Length f s < u32 (int position + int nBytes)
               then (let sz = u32 (int position + int nBytes - int (Length f s) + 1)
                     in case Expand sec sz s of
                          (True, s') \<Rightarrow> (nBytes, s')
                        | (False, s') \<Rightarrow> (u32 (int (Length f s') - int position), s'))
               else (nBytes, s)) of
           (nBytes, s1) \<Rightarrow>
             if \<not> u32 (int position + int nBytes) \<le> Length f s1 then Inl AssertionFailed
             else
               let h = headers s1 sec
               in (case filetable_find (filetable s1) sec of
                     None \<Rightarrow> Internal_WriteAt h sec from nBytes position s1
                   | Some node \<Rightarrow>
                       (case Semaphore_P (Can_Write node) of
                          None \<Rightarrow> Inl Blocked
                        | Some cw \<Rightarrow>
                            let s2 = s1\<lparr>filetable := (filetable s1)(sec := Some (node\<lparr>Can_Write := cw\<rparr>))\<rparr>
                            in (case Internal_WriteAt h sec from nBytes position s2 of
                                  Inl e \<Rightarrow> Inl e
                                | Inr (ret, s3) \<Rightarrow>
                                    Inr (ret, s3\<lparr>filetable := (filetable s3)
                                           (sec := Some (node\<lparr>Can_Write := Semaphore_V cw\<rparr>))\<rparr>)))))"



text \<open>\<open>OpenFile::~OpenFile\<close>. The destructor calls \<open>fileSystem->Remove\<close>, which itself
  creates and destroys open files; \<open>rm\<close> stands for that \<open>Remove\<close>, and the recursion is
  closed below.\<close>

definition OpenFile_delete ::
  "(string \<Rightarrow> Kernel \<Rightarrow> (bool \<times> Kernel) result) \<Rightarrow> OpenFile \<Rightarrow> Kernel \<Rightarrow> Kernel result" where
  "OpenFile_delete rm f s =
     (case filetable_find (filetable s) (file_sector f) of
        None \<Rightarrow> Inr s
      | Some node \<Rightarrow>
          let node = node\<lparr>users := users node - 1\<rparr>;
              s1 = s\<lparr>filetable := (filetable s)(file_sector f := Some node)\<rparr>
          in if remove node \<and> users node \<le> 0
             then (case rm (node_name node) s1 of
                     Inl e \<Rightarrow> Inl e
                   | Inr (b, s2) \<Rightarrow> Inr s2)
             else Inr s1)"

section \<open>The file system (filesys/file_system.cc)\<close>

subsection \<open>Paths\<close>

text \<open>A C string is the list of its characters before the terminating \<open>NUL\<close>. The
  buffers that \<open>CheckRoot\<close> and \<open>OpenPath\<close> fill with \<open>strncpy\<close> are taken to
  be long enough and to end in \<open>NUL\<close> after the bytes copied.\<close>

definition NUL :: char where
  "NUL = CHR 0x00"

text \<open>\<open>getName\<close>: the loop \<open>for (unsigned i = pos; 0 <= i; i--)\<close> never ends by its
  condition; it returns at the first \<open>'/'\<close> at or below \<open>pos\<close>, and reads outside the
  string (\<open>OutOfBounds\<close>) when there is none, as it does at once when \<open>pos\<close> is
  \<open>-1\<close>.\<close>

fun getName_loop :: "string \<Rightarrow> nat \<Rightarrow> string result" where
  "getName_loop nm 0 = (if nm ! 0 = CHR ''/'' then Inr (drop 1 nm) else Inl OutOfBounds)"
| "getName_loop nm (Suc i) =
     (if nm ! Suc i = CHR ''/'' then Inr (drop (Suc i + 1) nm) else getName_loop nm i)"

definition getName :: "string \<Rightarrow> string result" where
  "getName nm =
     (if nm = [] then Inl OutOfBounds
      else
        let pos = int (length nm) - 1
        in if nm ! nat pos = CHR ''/'' then
             (if pos - 1 < 0 then Inl OutOfBounds else getName_loop nm (nat (pos - 1)))
           else if nm ! 0 \<noteq> CHR ''/'' then Inr nm
           else getName_loop nm (nat pos))"

text \<open>\<open>CheckRoot\<close>, with the path of the current thread as an argument. A thread path
  that is empty makes the source read \<open>path[-1]\<close>; the model then puts the separator.\<close>

definition CheckRoot :: "string \<Rightarrow> string \<Rightarrow> string" where
  "CheckRoot cwd p =
     (if p = [] \<or> p ! 0 \<noteq> CHR ''/'' then
        (if cwd \<noteq> [] \<and> last cwd = CHR ''/'' then cwd @ p else cwd @ [CHR ''/''] @ p)
      else p)"

text \<open>The C string that starts at offset \<open>p\<close> of a buffer.\<close>

definition cstring :: "string \<Rightarrow> nat \<Rightarrow> string" where
  "cstring buf p = takeWhile (\<lambda>c. c \<noteq> NUL) (drop p buf)"

text \<open>\<open>FileSystem::OpenPath\<close>. The loop runs over the indices of the copied path; at
  each \<open>'/'\<close> it cuts the buffer, looks the component at \<open>p\<close> up among the directories,
  loads that directory through a transient open file, destroys the open file, and moves
  \<open>p\<close> by \<open>i + 1\<close>. The result is \<open>None\<close> for the null pointer, or the directory with
  the sector stored through \<open>_sector\<close>.\<close>

fun OpenPath_loop ::
  "(string \<Rightarrow> Kernel \<Rightarrow> (bool \<times> Kernel) result) \<Rightarrow> nat list \<Rightarrow> string \<Rightarrow> nat \<Rightarrow> Directory \<Rightarrow> nat
     \<Rightarrow> Kernel \<Rightarrow> ((Directory \<times> nat) option \<times> Kernel) result" where
  "OpenPath_loop rm [] buf p dir sec s = Inr (Some (dir, sec), s)"
| "OpenPath_loop rm (i # is) buf p dir sec s =
     (if buf ! i = CHR ''/'' then
        let buf' = buf[i := NUL];
            found = Directory_Find dir (cstring buf' p) True
        in if found = - 1 then Inr (None, s)
           else
             let dir_file = OpenFile_new (nat found);
                 dir' = directories s (file_sector dir_file)
             in (case OpenFile_delete rm dir_file s of
                   Inl e \<Rightarrow> Inl e
                 | Inr s' \<Rightarrow> OpenPath_loop rm is buf' (p + i + 1) dir' (nat found) s')
      else OpenPath_loop rm is buf p dir sec s)"

definition OpenPath ::
  "(string \<Rightarrow> Kernel \<Rightarrow> (bool \<times> Kernel) result) \<Rightarrow> string \<Rightarrow> Kernel
     \<Rightarrow> ((Directory \<times> nat) option \<times> Kernel) result" where
  "OpenPath rm path0 s =
     (let path1 = CheckRoot (currentPath s) path0;
          buf = drop 1 path1;
          dir = directories s DIRECTORY_SECTOR
      in OpenPath_loop rm [0 ..< length buf] buf 0 dir DIRECTORY_SECTOR s)"

subsection \<open>Writing a directory back\<close>

text \<open>The tail shared by \<open>Create\<close>, \<open>Remove\<close> and \<open>RemoveDir\<close>: the directory goes
  to \<open>directoryFile\<close> when its sector is \<open>DIRECTORY_SECTOR\<close>, and otherwise through an
  open file made for the sector and destroyed afterwards.\<close>

definition WriteBack_directory ::
  "(string \<Rightarrow> Kernel \<Rightarrow> (bool \<times> Kernel) result) \<Rightarrow> Directory \<Rightarrow> nat \<Rightarrow> Kernel \<Rightarrow> Kernel result" where
  "WriteBack_directory rm directory dir_sector s =
     (if dir_sector = DIRECTORY_SECTOR
      then Inr (s\<lparr>directories := (directories s)(DIRECTORY_SECTOR := directory)\<rparr>)
      else
        let f = OpenFile_new dir_sector;
            s1 = s\<lparr>directories := (directories s)(file_sector f := directory)\<rparr>
        in OpenFile_delete rm f s1)"

subsection \<open>Create, Open, RemoveDir, Remove\<close>


definition Open ::
  "(string \<Rightarrow> Kernel \<Rightarrow> (bool \<times> Kernel) result) \<Rightarrow> string \<Rightarrow> Kernel
     \<Rightarrow> (OpenFile option \<times> Kernel) result" where
  "Open rm path0 s =
     (let path = CheckRoot (currentPath s) path0
      in case OpenPath rm path s of
           Inl e \<Rightarrow> Inl e
         | Inr (directory, s1) \<Rightarrow>
             (case getName path of
                Inl e \<Rightarrow> Inl e
              | Inr nm \<Rightarrow>
                  (case directory of
                     None \<Rightarrow> Inl NullPointer
                   | Some (directory, dir_sector) \<Rightarrow>
                       let found = Directory_Find directory nm False
                       in if 1 < found then
                            (case filetable_add_file (filetable s1) nm (nat found) of
                               (node, table) \<Rightarrow>
                                 if remove node = False
                                 then Inr (Some (OpenFile_new (nat found)),
                                        s1\<lparr>filetable := table(nat found := Some (node\<lparr>users := users node + 1\<rparr>))\<rparr>)
                                 else Inr (None, s1\<lparr>filetable := table\<rparr>))
                          else Inr (None, s1))))"

definition RemoveDir ::
  "(string \<Rightarrow> Kernel \<Rightarrow> (bool \<times> Kernel) result) \<Rightarrow> string \<Rightarrow> Kernel \<Rightarrow> (bool \<times> Kernel) result" where
  "RemoveDir rm path0 s =
     (let path = CheckRoot (currentPath s) path0
      in if path = ''/'' then Inr (False, s)
         else
           (case getName path of
              Inl e \<Rightarrow> Inl e
            | Inr nm \<Rightarrow>
                (case OpenPath rm path s of
                   Inl e \<Rightarrow> Inl e
                 | Inr (directory, s1) \<Rightarrow>
                     (case directory of
                        None \<Rightarrow> Inl NullPointer
                      | Some (directory, dir_sector) \<Rightarrow>
                          let freeMap = freeMapFile s1
                          in (case Directory_Remove directory nm of
                                (folder_sector, directory') \<Rightarrow>
                                  (case (if folder_sector \<noteq> 0
                                         then (case Directory_Clean (length freeMap) (directories s1)
                                                      (headers s1) (directories s1 folder_sector) freeMap of
                                                 None \<Rightarrow> None
                                               | Some m \<Rightarrow>
                                                   Some (Bitmap_Clear
                                                     (FileHeader_Deallocate (headers s1 folder_sector) m)
                                                     folder_sector))
                                         else Some freeMap) of
                                     None \<Rightarrow> Inl NoReturn
                                   | Some freeMap' \<Rightarrow>
                                       (case WriteBack_directory rm directory' dir_sector s1 of
                                          Inl e \<Rightarrow> Inl e
                                        | Inr s2 \<Rightarrow> Inr (True, s2\<lparr>freeMapFile := freeMap'\<rparr>))))))))"

text \<open>The branch of \<open>FileSystem::Remove\<close> that frees the file at once: the entry leaves
  the directory, the data blocks and the header sector leave the free map, both are
  written back, and the node leaves the open-file table.\<close>

definition Remove_now ::
  "(string \<Rightarrow> Kernel \<Rightarrow> (bool \<times> Kernel) result) \<Rightarrow> Directory \<Rightarrow> nat \<Rightarrow> string \<Rightarrow> nat \<Rightarrow> Kernel
     \<Rightarrow> (bool \<times> Kernel) result" where
  "Remove_now rm directory dir_sector nm sec s =
     (case Directory_Remove directory nm of
        (removed, directory') \<Rightarrow>
          let freeMap = freeMapFile s;
              fileHeader = headers s sec;
              freeMap = FileHeader_Deallocate fileHeader freeMap;
              freeMap = Bitmap_Clear freeMap sec;
              s1 = s\<lparr>freeMapFile := freeMap\<rparr>
          in (case WriteBack_directory rm directory' dir_sector s1 of
                Inl e \<Rightarrow> Inl e
              | Inr s2 \<Rightarrow> Inr (True, s2\<lparr>filetable := filetable_remove (filetable s2) sec\<rparr>)))"

text \<open>The body of \<open>FileSystem::Remove\<close>; \<open>rm\<close> is the \<open>Remove\<close> that the destructors
  it runs call.\<close>

definition Remove_body ::
  "(string \<Rightarrow> Kernel \<Rightarrow> (bool \<times> Kernel) result) \<Rightarrow> string \<Rightarrow> Kernel \<Rightarrow> (bool \<times> Kernel) result" where
  "Remove_body rm path0 s =
     (let path = CheckRoot (currentPath s) path0
      in case OpenPath rm path s of
           Inl e \<Rightarrow> Inl e
         | Inr (directory, s1) \<Rightarrow>
             (case getName path of
                Inl e \<Rightarrow> Inl e
              | Inr nm \<Rightarrow>
                  (case directory of
                     None \<Rightarrow> Inl NullPointer
                   | Some (directory, dir_sector) \<Rightarrow>
                       let found = Directory_Find directory nm False
                       in if found < 0 then
                            (if Directory_Find directory nm True < 0 then Inr (False, s1)
                             else RemoveDir rm path s1)
                          else
                            (case filetable_find (filetable s1) (nat found) of
                               Some node \<Rightarrow>
                                 if users node \<noteq> 0
                                 then Inr (True, s1\<lparr>filetable :=
                                        (filetable s1)(nat found := Some (node\<lparr>remove := True\<rparr>))\<rparr>)
                                 else Remove_now rm directory dir_sector nm (nat found) s1
                             | None \<Rightarrow> Remove_now rm directory dir_sector nm (nat found) s1))))"

subsection \<open>Closing the recursion\<close>

text \<open>\<open>Remove\<close> calls itself through the destructors of the open files it makes. The
  number \<open>k\<close> bounds the depth of these nested calls; a call that would go deeper does
  not return within the bound (\<open>NoReturn\<close>). The operations of the file system and the
  destructor are the ones above with this \<open>Remove\<close>.\<close>

fun FileSystem_Remove :: "nat \<Rightarrow> string \<Rightarrow> Kernel \<Rightarrow> (bool \<times> Kernel) result" where
  "FileSystem_Remove 0 path s = Inl NoReturn"
| "FileSystem_Remove (Suc k) path s = Remove_body (FileSystem_Remove k) path s"


definition FileSystem_Open :: "nat \<Rightarrow> string \<Rightarrow> Kernel \<Rightarrow> (OpenFile option \<times> Kernel) result" where
  "FileSystem_Open k = Open (FileSystem_Remove k)"



section \<open>A small disk for the examples\<close>

text \<open>A kernel on a disk of eight sectors, just formatted: sectors 0 and 1 hold the headers
  of the free map and of the root directory, sectors 2 and 3 their data; the root directory
  has two free slots, no file is open, and the current thread is at \<open>/\<close>.\<close>

definition empty_entry :: DirectoryEntry where
  "empty_entry = \<lparr>inUse = False, isDir = False, name = [], sector = 0\<rparr>"

definition example_kernel :: Kernel where
  "example_kernel =
     \<lparr>disk = (\<lambda>sec j. CHR ''.''),
      headers = (\<lambda>sec. \<lparr>numBytes = 0, numSectors = 0, dataSectors = []\<rparr>),
      freeMapFile = [True, True, True, True, False, False, False, False],
      directories = (\<lambda>sec. [empty_entry, empty_entry]),
      filetable = (\<lambda>sec. None),
      currentPath = ''/'',
      uninit = (\<lambda>i. CHR ''?'')\<rparr>"



section \<open>Notions used by the properties\<close>









chapter \<open>Properties\<close>

section \<open>Scheduler\<close>

lemma tier_less_3: "tier p < 3" by (simp add: tier_def)

lemma SortedInsert_append:
  "\<forall>e\<in>set l. snd e \<le> k \<Longrightarrow> SortedInsert x k l = l @ [(x, k)]"
  by (induction l) auto

lemma ReadyToRun_readyList:
  "readyList (ReadyToRun t s) =
     (readyList s)(tier (priority t) :=
        SortedInsert (t\<lparr>status := READY\<rparr>) (priority t) (readyList s (tier (priority t))))"
  by (simp add: ReadyToRun_def tier_def Let_def)

lemma ReadyToRun_more: "Scheduler.more (ReadyToRun t s) = Scheduler.more s"
  by (simp add: ReadyToRun_def Let_def)

lemma FindNextToRun_from_None:
  "fst (FindNextToRun_from n s) = None \<longleftrightarrow> (\<forall>i<n. readyList s i = [])"
proof (induction n)
  case 0 show ?case by simp
next
  case (Suc n)
  show ?case
  proof (cases "readyList s n")
    case Nil
    with Suc show ?thesis by (auto simp: IsEmpty_def less_Suc_eq)
  next
    case (Cons e rest)
    then show ?thesis by (cases e) (auto simp: IsEmpty_def)
  qed
qed

lemma FindNextToRun_from_pop:
  "i < n \<Longrightarrow> readyList s i = (x, k) # rest \<Longrightarrow> (\<forall>j. i < j \<and> j < n \<longrightarrow> readyList s j = []) \<Longrightarrow>
   FindNextToRun_from n s = (Some x, s\<lparr>readyList := (readyList s)(i := rest)\<rparr>)"
proof (induction n)
  case 0 then show ?case by simp
next
  case (Suc n)
  show ?case
  proof (cases "i = n")
    case True
    with Suc.prems show ?thesis by (simp add: IsEmpty_def fun_upd_def)
  next
    case False
    with Suc.prems have "i < n" "readyList s n = []" by auto
    with Suc show ?thesis by (simp add: IsEmpty_def)
  qed
qed

lemma PopN_single_tier:
  "i < 3 \<Longrightarrow> (\<forall>j. j \<noteq> i \<longrightarrow> readyList s j = []) \<Longrightarrow> readyList s i = l \<Longrightarrow>
   PopN (length l) s = map (\<lambda>e. Some (fst e)) l"
proof (induction l arbitrary: s)
  case Nil then show ?case by simp
next
  case (Cons e rest)
  obtain x k where e: "e = (x, k)" by (cases e)
  let ?s' = "s\<lparr>readyList := (readyList s)(i := rest)\<rparr>"
  have "FindNextToRun s = (Some x, ?s')"
    unfolding FindNextToRun_def using Cons.prems e
    by (intro FindNextToRun_from_pop[where k=k]) auto
  moreover have "PopN (length rest) ?s' = map (\<lambda>e. Some (fst e)) rest"
    using Cons.prems by (intro Cons.IH) auto
  ultimately show ?case by (simp add: e)
qed

lemma ReadyAll_same_tier:
  "\<forall>t\<in>set ts. tier (priority t) = i \<Longrightarrow> sorted (map priority ts) \<Longrightarrow>
   \<forall>e\<in>set (readyList s i). \<forall>t\<in>set ts. snd e \<le> priority t \<Longrightarrow>
   readyList (ReadyAll ts s) =
     (readyList s)(i := readyList s i @ map (\<lambda>t. (t\<lparr>status := READY\<rparr>, priority t)) ts)"
proof (induction ts arbitrary: s)
  case Nil then show ?case by simp
next
  case (Cons t ts)
  have ins: "SortedInsert (t\<lparr>status := READY\<rparr>) (priority t) (readyList s i)
      = readyList s i @ [(t\<lparr>status := READY\<rparr>, priority t)]"
    using Cons.prems by (intro SortedInsert_append) auto
  have rl: "readyList (ReadyToRun t s) = (readyList s)(i := readyList s i @ [(t\<lparr>status := READY\<rparr>, priority t)])"
    using Cons.prems ins by (simp add: ReadyToRun_readyList)
  have "readyList (ReadyAll ts (ReadyToRun t s)) =
     (readyList (ReadyToRun t s))(i := readyList (ReadyToRun t s) i @ map (\<lambda>t. (t\<lparr>status := READY\<rparr>, priority t)) ts)"
    using Cons.prems rl by (intro Cons.IH) auto
  then show ?case by (simp add: rl)
qed

text \<open>Claim C5, as amended. Threads that \<open>ReadyToRun\<close> places in one tier are
  kept sorted by priority, not by arrival: \<open>FindNextToRun\<close> hands them out in arrival
  order whenever their priorities do not decrease along the arrival order, in particular
  when they are all equal (two threads of priority 20).\<close>

theorem fifo_within_tier_amended:
  assumes "\<forall>t\<in>set ts. tier (priority t) = i" and "sorted (map priority ts)"
  shows "PopN (length ts) (ReadyAll ts Scheduler_init) = map (\<lambda>t. Some (t\<lparr>status := READY\<rparr>)) ts"
proof (cases ts)
  case Nil then show ?thesis by simp
next
  case (Cons t0 ts0)
  have i3: "i < 3" using assms(1) Cons tier_less_3[of "priority t0"] by auto
  have rl: "readyList (ReadyAll ts Scheduler_init) =
     (\<lambda>i. [])(i := map (\<lambda>t. (t\<lparr>status := READY\<rparr>, priority t)) ts)"
    using ReadyAll_same_tier[OF assms, of Scheduler_init] by (simp add: Scheduler_init_def)
  have "PopN (length (map (\<lambda>t. (t\<lparr>status := READY\<rparr>, priority t)) ts)) (ReadyAll ts Scheduler_init)
      = map (\<lambda>e. Some (fst e)) (map (\<lambda>t. (t\<lparr>status := READY\<rparr>, priority t)) ts)"
    by (rule PopN_single_tier[OF i3]) (simp_all add: rl)
  then show ?thesis by (simp add: comp_def)
qed

theorem fifo_within_tier_amended_witness:
  "PopN 2 (ReadyAll [\<lparr>thread_name = ''T1'', priority = 20, status = JUST_CREATED\<rparr>,
                    \<lparr>thread_name = ''T2'', priority = 20, status = JUST_CREATED\<rparr>] Scheduler_init)
   = [Some \<lparr>thread_name = ''T1'', priority = 20, status = READY\<rparr>,
      Some \<lparr>thread_name = ''T2'', priority = 20, status = READY\<rparr>]"
  using fifo_within_tier_amended
    [of "[\<lparr>thread_name = ''T1'', priority = 20, status = JUST_CREATED\<rparr>,
          \<lparr>thread_name = ''T2'', priority = 20, status = JUST_CREATED\<rparr>]" 1]
  by (simp add: tier_def numeral_2_eq_2)

text \<open>Claim C5 as stated fails: a thread of priority 10 made ready before a thread of
  priority 5 (both in tier 0) is handed out after it.\<close>

theorem fifo_within_tier_counterexample:
  "tier 10 = tier 5 \<and>
   PopN 2 (ReadyAll [\<lparr>thread_name = ''T1'', priority = 10, status = JUST_CREATED\<rparr>,
                    \<lparr>thread_name = ''T2'', priority = 5, status = JUST_CREATED\<rparr>] Scheduler_init)
   = [Some \<lparr>thread_name = ''T2'', priority = 5, status = READY\<rparr>,
      Some \<lparr>thread_name = ''T1'', priority = 10, status = READY\<rparr>]"
  by (simp add: numeral_2_eq_2 FindNextToRun_def numeral_3_eq_3 ReadyToRun_def
      Scheduler_init_def IsEmpty_def tier_def)

lemma FindNextToRun_None_iff:
  "fst (FindNextToRun s) = None \<longleftrightarrow>
     readyList s 0 = [] \<and> readyList s 1 = [] \<and> readyList s 2 = []"
proof -
  have "(\<forall>i<3. readyList s i = []) \<longleftrightarrow>
      readyList s 0 = [] \<and> readyList s 1 = [] \<and> readyList s 2 = []"
  proof
    assume "\<forall>i<3. readyList s i = []"
    then show "readyList s 0 = [] \<and> readyList s 1 = [] \<and> readyList s 2 = []" by simp
  next
    assume a: "readyList s 0 = [] \<and> readyList s 1 = [] \<and> readyList s 2 = []"
    show "\<forall>i<3. readyList s i = []"
    proof (intro allI impI)
      fix i :: nat assume "i < 3"
      then have "i = 0 \<or> i = 1 \<or> i = 2" by arith
      with a show "readyList s i = []" by auto
    qed
  qed
  then show ?thesis unfolding FindNextToRun_def FindNextToRun_from_None .
qed

lemma FindNextToRun_highest:
  assumes "i < 3" "readyList s i \<noteq> []" "\<forall>j. i < j \<and> j < 3 \<longrightarrow> readyList s j = []"
  shows "FindNextToRun s =
     (Some (fst (hd (readyList s i))), s\<lparr>readyList := (readyList s)(i := tl (readyList s i))\<rparr>)"
proof -
  obtain x k rest where l: "readyList s i = (x, k) # rest"
    using assms(2) by (cases "readyList s i") auto
  show ?thesis
    unfolding FindNextToRun_def
    using FindNextToRun_from_pop[OF assms(1) l assms(3)] by (simp add: l)
qed

lemma three_tiers_pops:
  assumes "priority a < 20" "priority b = 20" "20 < priority c"
    and "xs \<in> {[a, b, c], [a, c, b], [b, a, c], [b, c, a], [c, a, b], [c, b, a]}"
  shows "PopN 4 (ReadyAll xs Scheduler_init) =
     [Some (c\<lparr>status := READY\<rparr>), Some (b\<lparr>status := READY\<rparr>), Some (a\<lparr>status := READY\<rparr>), None]"
proof -
  have n4: "(4::nat) = Suc (Suc (Suc (Suc 0)))" by simp
  show ?thesis using assms unfolding n4
    by (auto simp: FindNextToRun_def numeral_3_eq_3 ReadyToRun_def Scheduler_init_def IsEmpty_def Let_def)
qed

text \<open>Claim C4. \<open>ReadyToRun\<close> puts a thread of priority \<open>p\<close> into list 0 if
  \<open>p < 20\<close>, list 1 if \<open>p = 20\<close> and list 2 otherwise; \<open>FindNextToRun\<close> returns
  \<open>NULL\<close> exactly when the three lists are empty and otherwise pops the head of the
  non-empty list of highest index; ready threads of priorities below, equal to and above
  20 (5, 20 and 25), made ready in any order, are handed out highest tier first.\<close>

theorem scheduler_strict_priority:
  "readyList (ReadyToRun t s) =
     (readyList s)((if priority t < 20 then 0 else if priority t = 20 then 1 else 2) :=
        SortedInsert (t\<lparr>status := READY\<rparr>) (priority t)
          (readyList s (if priority t < 20 then 0 else if priority t = 20 then 1 else 2)))
   \<and> (fst (FindNextToRun s) = None \<longleftrightarrow>
        readyList s 0 = [] \<and> readyList s 1 = [] \<and> readyList s 2 = [])
   \<and> (\<forall>i<3. readyList s i \<noteq> [] \<and> (\<forall>j. i < j \<and> j < 3 \<longrightarrow> readyList s j = []) \<longrightarrow>
        FindNextToRun s =
          (Some (fst (hd (readyList s i))),
           s\<lparr>readyList := (readyList s)(i := tl (readyList s i))\<rparr>))
   \<and> (priority a < 20 \<and> priority b = 20 \<and> 20 < priority c \<and>
        xs \<in> {[a, b, c], [a, c, b], [b, a, c], [b, c, a], [c, a, b], [c, b, a]} \<longrightarrow>
        PopN 4 (ReadyAll xs Scheduler_init) =
          [Some (c\<lparr>status := READY\<rparr>), Some (b\<lparr>status := READY\<rparr>),
           Some (a\<lparr>status := READY\<rparr>), None])"
proof (intro conjI allI impI)
  show "readyList (ReadyToRun t s) =
     (readyList s)((if priority t < 20 then 0 else if priority t = 20 then 1 else 2) :=
        SortedInsert (t\<lparr>status := READY\<rparr>) (priority t)
          (readyList s (if priority t < 20 then 0 else if priority t = 20 then 1 else 2)))"
    using ReadyToRun_readyList[of t s] by (simp add: tier_def)
next
  show "fst (FindNextToRun s) = None \<longleftrightarrow>
        readyList s 0 = [] \<and> readyList s 1 = [] \<and> readyList s 2 = []"
    by (rule FindNextToRun_None_iff)
next
  fix i assume "i < 3" "readyList s i \<noteq> [] \<and> (\<forall>j. i < j \<and> j < 3 \<longrightarrow> readyList s j = [])"
  then show "FindNextToRun s =
          (Some (fst (hd (readyList s i))),
           s\<lparr>readyList := (readyList s)(i := tl (readyList s i))\<rparr>)"
    by (intro FindNextToRun_highest) auto
next
  assume "priority a < 20 \<and> priority b = 20 \<and> 20 < priority c \<and>
        xs \<in> {[a, b, c], [a, c, b], [b, a, c], [b, c, a], [c, a, b], [c, b, a]}"
  then show "PopN 4 (ReadyAll xs Scheduler_init) =
          [Some (c\<lparr>status := READY\<rparr>), Some (b\<lparr>status := READY\<rparr>),
           Some (a\<lparr>status := READY\<rparr>), None]"
    by (intro three_tiers_pops) auto
qed

theorem scheduler_strict_priority_witness:
  "readyList (ReadyToRun \<lparr>thread_name = ''B'', priority = 20, status = JUST_CREATED\<rparr> Scheduler_init) 1
     = [(\<lparr>thread_name = ''B'', priority = 20, status = READY\<rparr>, 20)]
   \<and> FindNextToRun (ReadyToRun \<lparr>thread_name = ''B'', priority = 20, status = JUST_CREATED\<rparr> Scheduler_init)
     = (Some \<lparr>thread_name = ''B'', priority = 20, status = READY\<rparr>, Scheduler_init)
   \<and> PopN 4 (ReadyAll [\<lparr>thread_name = ''A'', priority = 5, status = JUST_CREATED\<rparr>,
                       \<lparr>thread_name = ''B'', priority = 20, status = JUST_CREATED\<rparr>,
                       \<lparr>thread_name = ''C'', priority = 25, status = JUST_CREATED\<rparr>] Scheduler_init)
     = [Some \<lparr>thread_name = ''C'', priority = 25, status = READY\<rparr>,
        Some \<lparr>thread_name = ''B'', priority = 20, status = READY\<rparr>,
        Some \<lparr>thread_name = ''A'', priority = 5, status = READY\<rparr>, None]"
proof -
  let ?A = "\<lparr>thread_name = ''A'', priority = 5, status = JUST_CREATED\<rparr>"
  let ?B = "\<lparr>thread_name = ''B'', priority = 20, status = JUST_CREATED\<rparr>"
  let ?C = "\<lparr>thread_name = ''C'', priority = 25, status = JUST_CREATED\<rparr>"
  note th = scheduler_strict_priority
      [of ?B Scheduler_init ?A ?B ?C "[?A, ?B, ?C]"]
  note th2 = scheduler_strict_priority
      [of ?B "ReadyToRun ?B Scheduler_init" ?A ?B ?C "[?A, ?B, ?C]"]
  have rl: "readyList (ReadyToRun ?B Scheduler_init) = (\<lambda>i. [])(1 := [(?B\<lparr>status := READY\<rparr>, 20)])"
    using th by (simp add: Scheduler_init_def)
  have f1: "readyList (ReadyToRun ?B Scheduler_init) 1 = [(\<lparr>thread_name = ''B'', priority = 20, status = READY\<rparr>, 20)]"
    using rl by simp
  have "FindNextToRun (ReadyToRun ?B Scheduler_init) =
      (Some (fst (hd (readyList (ReadyToRun ?B Scheduler_init) 1))),
       (ReadyToRun ?B Scheduler_init)\<lparr>readyList :=
          (readyList (ReadyToRun ?B Scheduler_init))(1 := tl (readyList (ReadyToRun ?B Scheduler_init) 1))\<rparr>)"
    using th2[THEN conjunct2, THEN conjunct2, THEN conjunct1, rule_format, of 1] rl by simp
  moreover have "(ReadyToRun ?B Scheduler_init)\<lparr>readyList :=
          (readyList (ReadyToRun ?B Scheduler_init))(1 := tl (readyList (ReadyToRun ?B Scheduler_init) 1))\<rparr>
        = Scheduler_init"
    by (auto simp: ReadyToRun_def Scheduler_init_def fun_upd_def)
  ultimately have f2: "FindNextToRun (ReadyToRun ?B Scheduler_init) =
      (Some \<lparr>thread_name = ''B'', priority = 20, status = READY\<rparr>, Scheduler_init)"
    using f1 by simp
  have f3: "PopN 4 (ReadyAll [?A, ?B, ?C] Scheduler_init) =
      [Some \<lparr>thread_name = ''C'', priority = 25, status = READY\<rparr>,
       Some \<lparr>thread_name = ''B'', priority = 20, status = READY\<rparr>,
       Some \<lparr>thread_name = ''A'', priority = 5, status = READY\<rparr>, None]"
    using th[THEN conjunct2, THEN conjunct2, THEN conjunct2] by simp
  show ?thesis using f1 f2 f3 by (intro conjI)
qed

section \<open>Open files: WriteAt\<close>

text \<open>Claim C3, the code at the failing input. A file of 127 bytes in one sector, one
  byte written at offset 127 (the length): 128 bytes fit the sector the file has, yet
  \<open>WriteAt\<close> asks \<open>Expand\<close> for one byte more than the write needs, so the file ends
  with 129 bytes and a second sector taken from the free map.\<close>

theorem WriteAt_at_length_takes_extra_sector:
  "(case WriteAt (OpenFile_new 4) ''x'' 1 127
          (example_kernel\<lparr>headers := (headers example_kernel)
                             (4 := \<lparr>numBytes = 127, numSectors = 1, dataSectors = [5]\<rparr>),
                           freeMapFile := [True, True, True, True, True, True, False, False]\<rparr>) of
      Inl e \<Rightarrow> None
    | Inr (ret, s') \<Rightarrow> Some (ret, headers s' 4, freeMapFile s'))
   = Some (1, \<lparr>numBytes = 129, numSectors = 2, dataSectors = [5, 6]\<rparr>,
           [True, True, True, True, True, True, True, False])"
  by (simp add: WriteAt_def Length_def OpenFile_new_def FileHeader_FileLength_def
      example_kernel_def Expand_def FileHeader_Extend_def DivRoundUp_def DivRoundDown_def
      SECTOR_SIZE_def NUM_DIRECT_def Bitmap_NumClear_def u32_def filetable_find_def
      Internal_WriteAt_def Internal_ReadAt_def Let_def Bitmap_Find_def Bitmap_Mark_def
      numeral_eq_Suc[of "num.One"] memcpy_def)

text \<open>Claim C7, the code at the failing input. A file of 128 bytes on a full disk, three
  bytes written at offset 128 (the length): \<open>Expand\<close> fails, \<open>WriteAt\<close> clamps the count
  to \<open>Length - position = 0\<close>, and \<open>Internal_WriteAt\<close> stops on its assertion
  \<open>numBytes > 0\<close> instead of returning the short count 0.\<close>

theorem WriteAt_at_length_full_disk_aborts:
  "WriteAt (OpenFile_new 4) ''xyz'' 3 128
     (example_kernel\<lparr>headers := (headers example_kernel)
                        (4 := \<lparr>numBytes = 128, numSectors = 1, dataSectors = [5]\<rparr>),
                      freeMapFile := [True, True, True, True, True, True, True, True]\<rparr>)
   = Inl AssertionFailed"
  by (simp add: WriteAt_def Length_def OpenFile_new_def FileHeader_FileLength_def
      example_kernel_def Expand_def FileHeader_Extend_def DivRoundUp_def SECTOR_SIZE_def
      NUM_DIRECT_def Bitmap_NumClear_def u32_def filetable_find_def Internal_WriteAt_def Let_def)

section \<open>File system: Open and RemoveDir\<close>

lemma getName_loop_numeral:
  "getName_loop nm (numeral n) =
     (if nm ! numeral n = CHR ''/'' then Inr (drop (numeral n + 1) nm)
      else getName_loop nm (pred_numeral n))"
  by (simp add: numeral_eq_Suc)

text \<open>Claim C8, the code at the failing input. On the freshly formatted disk the root
  has no directory \<open>missing\<close>: \<open>OpenPath\<close> returns the null directory for
  \<open>/missing/f\<close>, and \<open>Open\<close> calls \<open>Find\<close> on it without the test that \<open>Create\<close>
  makes, for any bound \<open>k\<close> on nested removals.\<close>

theorem Open_missing_component_null_pointer:
  "FileSystem_Open k ''/missing/f'' example_kernel = Inl NullPointer"
  by (simp add: FileSystem_Open_def Open_def OpenPath_def CheckRoot_def example_kernel_def
      upt_rec Directory_Find_def empty_entry_def cstring_def NUL_def getName_def
      DIRECTORY_SECTOR_def getName_loop_numeral)



section \<open>Open files: a write followed by a read\<close>

declare upt_Suc [simp del]
















section \<open>File system: paths under the root, Create\<close>















section \<open>File system: deferred removal\<close>


lemma fold_Clear_length:
  "length (fold (\<lambda>sec m. Bitmap_Clear m sec) xs m) = length m"
  by (induction xs arbitrary: m) (simp_all add: Bitmap_Clear_def)













section \<open>Allocation keeps headers well formed\<close>










section \<open>A full write can be read back\<close>




lemma Internal_WriteAt_zero: "Internal_WriteAt h sec from 0 pos s = Inl AssertionFailed"
  by (simp add: Internal_WriteAt_def)




section \<open>The round trip through the file system\<close>











section \<open>The readers and the writer of a node\<close>











end
